theory Spec2Isabelle
  imports Complex_Main "HOL-Library.AList"
begin

section \<open>Python values used by pload.py\<close>

text \<open>
  Text is a list of characters (code points below 256).  A dict (and an OrderedDict) is
  an association list with distinct keys, in insertion order; \<open>d[k] = v\<close> is
  \<open>AList.update\<close>, which overwrites in place or appends.  Every exception is a value
  of type \<open>error\<close>.  Floats, their arithmetic and the conversions between numbers and
  text are the interpreter's; the model takes them as parameters (subsection Numbers).
\<close>

datatype error = ValueError | IndexError | KeyError | StopIteration | UnboundLocalError

type_synonym 'a result = "error + 'a"

definition ebind :: "'a result \<Rightarrow> ('a \<Rightarrow> 'b result) \<Rightarrow> 'b result" where
  "ebind m f = (case m of Inl e \<Rightarrow> Inl e | Inr x \<Rightarrow> f x)"

text \<open>\<open>xs[i]\<close> for a non-negative index: IndexError out of range.\<close>

definition getitem :: "'a list \<Rightarrow> nat \<Rightarrow> 'a result" where
  "getitem xs i = (if i < length xs then Inr (xs ! i) else Inl IndexError)"

text \<open>\<open>d[k]\<close> on a dict: KeyError when the key is absent.\<close>

definition dict_get :: "('k \<times> 'v) list \<Rightarrow> 'k \<Rightarrow> 'v result" where
  "dict_get d k = (case map_of d k of None \<Rightarrow> Inl KeyError | Some v \<Rightarrow> Inr v)"

subsection \<open>Strings\<close>

text \<open>\<open>str.isspace\<close> on the code points below 256.\<close>

definition isspace :: "char \<Rightarrow> bool" where
  "isspace c = (c \<in> set [CHR 0x09, CHR 0x0A, CHR 0x0B, CHR 0x0C, CHR 0x0D,
                          CHR 0x1C, CHR 0x1D, CHR 0x1E, CHR 0x1F, CHR 0x20,
                          CHR 0x85, CHR 0xA0])"

definition isdigit :: "char \<Rightarrow> bool" where
  "isdigit c = (c \<in> set ''0123456789'')"

definition lstrip :: "string \<Rightarrow> string" where
  "lstrip s = dropWhile isspace s"

definition rstrip :: "string \<Rightarrow> string" where
  "rstrip s = rev (dropWhile isspace (rev s))"

definition strip :: "string \<Rightarrow> string" where
  "strip s = rstrip (lstrip s)"

text \<open>\<open>s.lstrip(chars)\<close> and \<open>s.rstrip(chars)\<close>.\<close>

definition lstrip_chars :: "string \<Rightarrow> string \<Rightarrow> string" where
  "lstrip_chars cs s = dropWhile (\<lambda>c. c \<in> set cs) s"

definition rstrip_chars :: "string \<Rightarrow> string \<Rightarrow> string" where
  "rstrip_chars cs s = rev (dropWhile (\<lambda>c. c \<in> set cs) (rev s))"

definition startswith :: "string \<Rightarrow> string \<Rightarrow> bool" where
  "startswith s p = (take (length p) s = p)"

definition endswith :: "string \<Rightarrow> string \<Rightarrow> bool" where
  "endswith s p = (length p \<le> length s \<and> drop (length s - length p) s = p)"

text \<open>\<open>s.split()\<close>: the maximal runs of non-whitespace characters.\<close>

function split_ws :: "string \<Rightarrow> string list" where
  "split_ws s =
     (case dropWhile isspace s of
        [] \<Rightarrow> []
      | c # cs \<Rightarrow> takeWhile (\<lambda>x. \<not> isspace x) (c # cs)
                 # split_ws (dropWhile (\<lambda>x. \<not> isspace x) (c # cs)))"
  by pat_completeness auto
termination
proof (relation "measure length")
  fix s :: string and c cs
  assume a: "dropWhile isspace s = c # cs"
  have "length (dropWhile (\<lambda>x. \<not> isspace x) (c # cs)) < length (c # cs)"
  proof -
    have "\<not> isspace c" using a by (metis hd_dropWhile list.sel(1) list.distinct(1))
    then have "dropWhile (\<lambda>x. \<not> isspace x) (c # cs) = dropWhile (\<lambda>x. \<not> isspace x) cs"
      by simp
    then show ?thesis
      using length_dropWhile_le [of "\<lambda>x. \<not> isspace x" cs] by simp
  qed
  moreover have "length (c # cs) \<le> length s"
    using a length_dropWhile_le [of isspace s] by simp
  ultimately show "(dropWhile (\<lambda>x. \<not> isspace x) (c # cs), s) \<in> measure length"
    by simp
qed simp

declare split_ws.simps [simp del]

text \<open>\<open>s.split(' ', 1)\<close>: at most one split, at the first space character.\<close>

definition split_space1 :: "string \<Rightarrow> string list" where
  "split_space1 s =
     (if CHR '' '' \<in> set s
      then [takeWhile (\<lambda>c. c \<noteq> CHR '' '') s, tl (dropWhile (\<lambda>c. c \<noteq> CHR '' '') s)]
      else [s])"

subsection \<open>Numbers\<close>

text \<open>
  The float arithmetic, the conversions between text and numbers, the float formats and
  \<open>str.upper\<close> are operations of the Python interpreter and of numpy, not of
  pload.py.  The model takes them as parameters: a record with one field for each of
  these operations that the code uses, over an arbitrary type \<open>'f\<close> of floats.

    \<^item> \<open>py_int s\<close> is \<open>int(s)\<close> and \<open>py_float s\<close> is \<open>float(s)\<close> on a string
      \<open>s\<close>; both either return a number or raise a ValueError, for which \<open>None\<close>
      stands;
    \<^item> \<open>float_lit s\<close> is the float that the literal \<open>s\<close> denotes in the source text,
      and \<open>float_int n\<close> is the integer \<open>n\<close> converted to a float, as happens when an
      integer meets a float in an arithmetic operation or a float format;
    \<^item> \<open>fadd\<close>, \<open>fsub\<close>, \<open>fmul\<close> and \<open>fdiv\<close> are \<open>+\<close>, \<open>-\<close>, \<open>*\<close> and
      \<open>/\<close> on floats (the code divides by non-zero constants only);
    \<^item> \<open>np_around x d\<close> is \<open>np.around(x, d)\<close> on one element;
    \<^item> \<open>format_e d x\<close> is \<open>'{:.de}'.format(x)\<close> and \<open>format_f d x\<close> is
      \<open>'{:.df}'.format(x)\<close>;
    \<^item> \<open>str_upper s\<close> is \<open>s.upper()\<close>.

  The code never compares two floats, so what it computes is determined by these
  operations, and a theorem stated for an arbitrary record holds for the interpreter's
  own operations, with their rounding, infinities and NaN.
\<close>

record 'f builtins =
  py_int :: "string \<Rightarrow> int option"
  py_float :: "string \<Rightarrow> 'f option"
  float_lit :: "string \<Rightarrow> 'f"
  float_int :: "int \<Rightarrow> 'f"
  fadd :: "'f \<Rightarrow> 'f \<Rightarrow> 'f"
  fsub :: "'f \<Rightarrow> 'f \<Rightarrow> 'f"
  fmul :: "'f \<Rightarrow> 'f \<Rightarrow> 'f"
  fdiv :: "'f \<Rightarrow> 'f \<Rightarrow> 'f"
  np_around :: "'f \<Rightarrow> int \<Rightarrow> 'f"
  format_e :: "nat \<Rightarrow> 'f \<Rightarrow> string"
  format_f :: "nat \<Rightarrow> 'f \<Rightarrow> string"
  str_upper :: "string \<Rightarrow> string"

text \<open>\<open>int(s)\<close> and \<open>float(s)\<close> with the ValueError as a value.\<close>

definition to_int :: "'f builtins \<Rightarrow> string \<Rightarrow> int result" where
  "to_int B s = (case py_int B s of None \<Rightarrow> Inl ValueError | Some n \<Rightarrow> Inr n)"

definition to_float :: "'f builtins \<Rightarrow> string \<Rightarrow> 'f result" where
  "to_float B s = (case py_float B s of None \<Rightarrow> Inl ValueError | Some x \<Rightarrow> Inr x)"

definition digit_char :: "nat \<Rightarrow> char" where
  "digit_char d = char_of (48 + d)"

text \<open>The decimal digits of a non-negative integer.\<close>

function digits_of :: "int \<Rightarrow> string" where
  "digits_of n =
     (if n < 10 then [digit_char (nat n)]
      else digits_of (n div 10) @ [digit_char (nat (n mod 10))])"
  by pat_completeness auto
termination
  by (relation "measure nat") auto

declare digits_of.simps [simp del]

text \<open>\<open>'{}'.format(n)\<close> for an integer.\<close>

definition str_int :: "int \<Rightarrow> string" where
  "str_int i = (if i < 0 then CHR ''-'' # digits_of (- i) else digits_of i)"

abbreviation nl :: string where
  "nl \<equiv> [CHR 0x0A]"

abbreviation tab :: string where
  "tab \<equiv> [CHR 0x09]"

section \<open>Grid codec: reading\<close>

text \<open>
  \<^verbatim>\<open>
  def process_grid_line(line):
      items = line.split()
      if len(items) == 5:  # pluto 3 grid
          return float(items[2])
      else:                # pluto 4 grid
          return (float(items[1]) + float(items[2])) / 2
  \<close>
\<close>

definition process_grid_line :: "'f builtins \<Rightarrow> string \<Rightarrow> 'f result" where
  "process_grid_line B line =
     (let items = split_ws line in
      if length items = 5
      then ebind (getitem items 2) (to_float B)
      else ebind (getitem items 1) (\<lambda>s1.
           ebind (to_float B s1) (\<lambda>a.
           ebind (getitem items 2) (\<lambda>s2.
           ebind (to_float B s2) (\<lambda>b.
           Inr (fdiv B (fadd B a b) (float_int B 2)))))))"

text \<open>
  A file opened for reading in text mode: \<open>\r\n\<close> and \<open>\r\<close> are read as
  \<open>\n\<close>, and iterating the file gives its lines, each with its newline (the last
  one may lack it).
\<close>

fun universal_newlines :: "string \<Rightarrow> string" where
  "universal_newlines [] = []"
| "universal_newlines [c] = [if c = CHR 0x0D then CHR 0x0A else c]"
| "universal_newlines (c # d # cs) =
     (if c = CHR 0x0D \<and> d = CHR 0x0A then CHR 0x0A # universal_newlines cs
      else if c = CHR 0x0D then CHR 0x0A # universal_newlines (d # cs)
      else c # universal_newlines (d # cs))"

primrec lines_of :: "string \<Rightarrow> string list" where
  "lines_of [] = []"
| "lines_of (c # cs) =
     (if c = CHR 0x0A then [c] # lines_of cs
      else (case lines_of cs of [] \<Rightarrow> [[c]] | l # ls \<Rightarrow> (c # l) # ls))"

definition readlines :: "string \<Rightarrow> string list" where
  "readlines content = lines_of (universal_newlines content)"

text \<open>A grid: the dict from the axis names to the arrays of the cell centres.\<close>

type_synonym 'f grid = "(string \<times> 'f list) list"





section \<open>Grid codec: writing\<close>

text \<open>\<open>xs[-1]\<close>.\<close>

definition getitem_last :: "'a list \<Rightarrow> 'a result" where
  "getitem_last xs = (if xs = [] then Inl IndexError else Inr (last xs))"

definition keys :: "string list" where
  "keys = [''x1'', ''x2'', ''x3'']"

text \<open>\<open>ndim = sum(arr.size > 1 for arr in grid.values())\<close>\<close>

definition ndim_of :: "'f grid \<Rightarrow> nat" where
  "ndim_of grid = length (filter (\<lambda>arr. 1 < length arr) (map snd grid))"

text \<open>
  \<open>'# {0} [{1:.5f},  {2:.5f}], {3} point(s), 3 ghosts\n'.format(dim.upper(), xmin, xmax, nx)\<close>
\<close>

definition header_dim_line :: "'f builtins \<Rightarrow> string \<Rightarrow> 'f \<Rightarrow> 'f \<Rightarrow> nat \<Rightarrow> string" where
  "header_dim_line B d xmin xmax nx =
     ''# '' @ str_upper B d @ '' ['' @ format_f B 5 xmin @ '',  '' @ format_f B 5 xmax @ ''], ''
       @ str_int (int nx) @ '' point(s), 3 ghosts'' @ nl"

text \<open>
  \<^verbatim>\<open>
  for i in range(ndim):
      dim  = keys[i]
      nx   = grid[dim].size
      xmin, xmax = grid[dim][0], grid[dim][-1]
      fp.write(...)
  \<close>
  The result is the text written by the loop.
\<close>

fun header_dims :: "'f builtins \<Rightarrow> nat list \<Rightarrow> 'f grid \<Rightarrow> string result" where
  "header_dims B [] grid = Inr []"
| "header_dims B (i # is) grid =
     ebind (getitem keys i) (\<lambda>d.
     ebind (dict_get grid d) (\<lambda>arr.
     ebind (getitem arr 0) (\<lambda>xmin.
     ebind (getitem_last arr) (\<lambda>xmax.
     ebind (header_dims B is grid) (\<lambda>rest.
     Inr (header_dim_line B d xmin xmax (length arr) @ rest))))))"

text \<open>
  \<open>write_grid_header(fname, grid, geometry)\<close>: the result is the content of the
  file, which is opened with mode \<open>'w'\<close>.
\<close>

definition write_grid_header :: "'f builtins \<Rightarrow> 'f grid \<Rightarrow> string \<Rightarrow> string result" where
  "write_grid_header B grid geometry =
     ebind (header_dims B [0 ..< ndim_of grid] grid) (\<lambda>dim_lines.
     Inr (''# ******************************************************'' @ nl
        @ ''# PLUTO 4.2 Grid File'' @ nl
        @ ''# Generated on  Mon Jul 10 10:10:10 2017'' @ nl
        @ ''#'' @ nl
        @ ''# DIMENSIONS: '' @ str_int (int (ndim_of grid)) @ nl
        @ ''# GEOMETRY:   '' @ str_upper B geometry @ nl
        @ dim_lines
        @ ''# ******************************************************'' @ nl))"

text \<open>
  An element of the arrays \<open>left\<close> and \<open>right\<close>: a float when the axis has more
  than one point, an integer in the placeholder arrays \<open>np.array([0])\<close> and
  \<open>np.array([1])\<close>.  A float format and a product with a float take an integer as
  the float it converts to; the sum and the difference of two integers are integers.
\<close>

datatype 'f scalar = Int64 int | Float64 'f

definition scalar_float :: "'f builtins \<Rightarrow> 'f scalar \<Rightarrow> 'f" where
  "scalar_float B s = (case s of Int64 n \<Rightarrow> float_int B n | Float64 x \<Rightarrow> x)"

definition scalar_add :: "'f builtins \<Rightarrow> 'f scalar \<Rightarrow> 'f scalar \<Rightarrow> 'f scalar" where
  "scalar_add B r l =
     (case (r, l) of
        (Int64 a, Int64 b) \<Rightarrow> Int64 (a + b)
      | _ \<Rightarrow> Float64 (fadd B (scalar_float B r) (scalar_float B l)))"

definition scalar_sub :: "'f builtins \<Rightarrow> 'f scalar \<Rightarrow> 'f scalar \<Rightarrow> 'f scalar" where
  "scalar_sub B r l =
     (case (r, l) of
        (Int64 a, Int64 b) \<Rightarrow> Int64 (a - b)
      | _ \<Rightarrow> Float64 (fsub B (scalar_float B r) (scalar_float B l)))"

text \<open>
  \<^verbatim>\<open>
  if npoints > 1:
      dx    = grid[dim][1] - grid[dim][0]
      left  = np.around(grid[dim] - dx / 2, 12) + 0
      right = np.around(grid[dim] + dx / 2, 12) + 0
  else:
      left  = np.array([0])
      right = np.array([1])
  \<close>
\<close>

definition axis_edges :: "'f builtins \<Rightarrow> 'f list \<Rightarrow> 'f scalar list \<times> 'f scalar list" where
  "axis_edges B arr =
     (if 1 < length arr
      then (let half = fdiv B (fsub B (arr ! 1) (arr ! 0)) (float_int B 2) in
            (map (\<lambda>c. Float64 (fadd B (np_around B (fsub B c half) 12) (float_int B 0))) arr,
             map (\<lambda>c. Float64 (fadd B (np_around B (fadd B c half) 12) (float_int B 0))) arr))
      else ([Int64 0], [Int64 1]))"

text \<open>\<open>" {}\t{:.12e}\t{:.12e}\n".format(i + 1, left[i], right[i])\<close>\<close>

definition row_v4 :: "'f builtins \<Rightarrow> nat \<Rightarrow> 'f scalar \<Rightarrow> 'f scalar \<Rightarrow> string" where
  "row_v4 B i l r =
     '' '' @ str_int (int i + 1) @ tab @ format_e B 12 (scalar_float B l)
       @ tab @ format_e B 12 (scalar_float B r) @ nl"

text \<open>
  \<open>" {}\t{:.12e}\t{:.12e}\t{:.12e}\t{:.12e}\n".format(i + 1, L[i], 0.5*(R[i] + L[i]), R[i], R[i] - L[i])\<close>
\<close>

definition row_v3 :: "'f builtins \<Rightarrow> nat \<Rightarrow> 'f scalar \<Rightarrow> 'f scalar \<Rightarrow> string" where
  "row_v3 B i l r =
     '' '' @ str_int (int i + 1) @ tab @ format_e B 12 (scalar_float B l)
       @ tab @ format_e B 12 (fmul B (float_lit B ''0.5'') (scalar_float B (scalar_add B r l)))
       @ tab @ format_e B 12 (scalar_float B r)
       @ tab @ format_e B 12 (scalar_float B (scalar_sub B r l)) @ nl"




section \<open>Output log reader\<close>

text \<open>
  \<^verbatim>\<open>
  CONST_pc      = 3.0856775807e18
  UNIT_LENGTH   = CONST_pc
  UNIT_VELOCITY = 1.0e5
  UNIT_TIME     = UNIT_LENGTH / UNIT_VELOCITY
  time2yrs = UNIT_TIME / (365 * 24 * 3600)
  \<close>
  The product \<open>365 * 24 * 3600\<close> is a product of integers.
\<close>

definition CONST_pc :: "'f builtins \<Rightarrow> 'f" where
  "CONST_pc B = float_lit B ''3.0856775807e18''"

definition UNIT_LENGTH :: "'f builtins \<Rightarrow> 'f" where
  "UNIT_LENGTH B = CONST_pc B"

definition UNIT_VELOCITY :: "'f builtins \<Rightarrow> 'f" where
  "UNIT_VELOCITY B = float_lit B ''1.0e5''"

definition UNIT_TIME :: "'f builtins \<Rightarrow> 'f" where
  "UNIT_TIME B = fdiv B (UNIT_LENGTH B) (UNIT_VELOCITY B)"

definition time2yrs :: "'f builtins \<Rightarrow> 'f" where
  "time2yrs B = fdiv B (UNIT_TIME B) (float_int B (365 * 24 * 3600))"

text \<open>
  The payload dict of one line, with the keys \<open>'time'\<close>, \<open>'_time'\<close>,
  \<open>'_output'\<close> and \<open>'vars'\<close>.
\<close>

record 'f payload =
  time :: 'f
  raw_time :: 'f
  output_format :: string
  vars :: "string list"

type_synonym 'f catalog = "(int \<times> 'f payload) list"

text \<open>
  \<^verbatim>\<open>
  items = line.split()
  nfile = int(items[0])
  time  = float(items[1])
  output_format = items[4]
  variables = items[6:]
  payload = {'time': time * time2yrs, '_time': time,
             '_output': output_format, 'vars': variables}
  data[nfile] = payload
  \<close>
\<close>

definition log_line :: "'f builtins \<Rightarrow> 'f catalog \<Rightarrow> string \<Rightarrow> 'f catalog result" where
  "log_line B data line =
     (let items = split_ws line in
      ebind (getitem items 0) (\<lambda>s0.
      ebind (to_int B s0) (\<lambda>nfile.
      ebind (getitem items 1) (\<lambda>s1.
      ebind (to_float B s1) (\<lambda>t.
      ebind (getitem items 4) (\<lambda>fmt.
      Inr (AList.update nfile
             \<lparr>time = fmul B t (time2yrs B), raw_time = t, output_format = fmt,
              vars = drop 6 items\<rparr> data)))))))"

fun log_lines :: "'f builtins \<Rightarrow> 'f catalog \<Rightarrow> string list \<Rightarrow> 'f catalog result" where
  "log_lines B data [] = Inr data"
| "log_lines B data (line # rest) =
     ebind (log_line B data line) (\<lambda>data'. log_lines B data' rest)"

definition read_output_log :: "'f builtins \<Rightarrow> string \<Rightarrow> 'f catalog result" where
  "read_output_log B content = log_lines B [] (readlines content)"

section \<open>Config codec\<close>

type_synonym section_map = "(string \<times> string) list"

type_synonym config = "(string \<times> section_map) list"

text \<open>
  The body of the loop of \<open>read_config\<close>.  The state is the document and the local
  variable \<open>section\<close>, which is unbound until the first header.
  \<^verbatim>\<open>
  line = line.strip()
  if line.startswith('[') and line.endswith(']'):
      section = line.lstrip('[').rstrip(']')
      data[section] = collections.OrderedDict()
  elif not line:  # skip empty line
      continue
  else:
      key, val = line.split(' ', 1)
      data[section][key] = val.strip()
  \<close>
\<close>

definition config_line ::
  "config \<times> string option \<Rightarrow> string \<Rightarrow> (config \<times> string option) result" where
  "config_line st raw =
     (case st of
        (data, section) \<Rightarrow>
          let line = strip raw in
          if startswith line ''['' \<and> endswith line '']''
          then Inr (AList.update (rstrip_chars '']'' (lstrip_chars ''['' line)) [] data,
                    Some (rstrip_chars '']'' (lstrip_chars ''['' line)))
          else if line = [] then Inr (data, section)
          else (case split_space1 line of
                  [key, val] \<Rightarrow>
                    (case section of
                       None \<Rightarrow> Inl UnboundLocalError
                     | Some s \<Rightarrow>
                         ebind (dict_get data s) (\<lambda>m.
                         Inr (AList.update s (AList.update key (strip val) m) data, section)))
                | _ \<Rightarrow> Inl ValueError))"

fun config_lines ::
  "config \<times> string option \<Rightarrow> string list \<Rightarrow> (config \<times> string option) result" where
  "config_lines st [] = Inr st"
| "config_lines st (raw # rest) = ebind (config_line st raw) (\<lambda>st'. config_lines st' rest)"

definition read_config :: "string \<Rightarrow> config result" where
  "read_config content =
     ebind (config_lines ([], None) (readlines content)) (\<lambda>st. Inr (fst st))"

text \<open>\<open>'{:<25}'.format(key)\<close>: spaces are added on the right, up to the width.\<close>

definition ljust :: "nat \<Rightarrow> string \<Rightarrow> string" where
  "ljust w s = s @ replicate (w - length s) CHR '' ''"

text \<open>
  \<^verbatim>\<open>
  for section in data:
      fp.write("[{}]\n\n".format(section))
      for key, val in data[section].items():
          fp.write("{:<25}{}\n".format(key, val))
      fp.write("\n")
  \<close>
\<close>

definition write_pair :: "string \<times> string \<Rightarrow> string" where
  "write_pair kv = ljust 25 (fst kv) @ snd kv @ nl"

definition write_section :: "string \<times> section_map \<Rightarrow> string" where
  "write_section sec =
     ''['' @ fst sec @ '']'' @ nl @ nl @ concat (map write_pair (snd sec)) @ nl"

definition write_config :: "config \<Rightarrow> string" where
  "write_config data = concat (map write_section data)"

section \<open>The specification's reading of a key-value line\<close>

text \<open>
  The specification splits a key-value line on its first run of whitespace, with the
  value trimmed on the right.
\<close>

definition spec_split_kv :: "string \<Rightarrow> string \<times> string" where
  "spec_split_kv line =
     (takeWhile (\<lambda>c. \<not> isspace c) line,
      rstrip (dropWhile isspace (dropWhile (\<lambda>c. \<not> isspace c) line)))"

section \<open>An interpretation of the builtins by exact decimal arithmetic\<close>

text \<open>
  One record of builtins, on which the model can be run: a float is a real number, the
  arithmetic is exact, \<open>int\<close> and \<open>float\<close> read the plain decimal literals,
  possibly between blanks, and the formats round to the nearest decimal, ties to even.
  It is not the interpreter's record: that one rounds to doubles, has infinities and
  NaN, and reads more literals.  The two agree where no rounding occurs, as on the
  concrete lines and grids below.
\<close>

definition ascii_space :: "char \<Rightarrow> bool" where
  "ascii_space c \<longleftrightarrow> of_char c \<in> {0x09, 0x0A, 0x0B, 0x0C, 0x0D, 0x20 :: nat}"

definition ascii_strip :: "string \<Rightarrow> string" where
  "ascii_strip s = rev (dropWhile ascii_space (rev (dropWhile ascii_space s)))"

definition digit_val :: "char \<Rightarrow> nat" where
  "digit_val c = of_char c - 48"

definition int_of_digits :: "string \<Rightarrow> int" where
  "int_of_digits ds = foldl (\<lambda>n c. 10 * n + int (digit_val c)) 0 ds"

definition sign_split :: "string \<Rightarrow> bool \<times> string" where
  "sign_split s =
     (case s of
        [] \<Rightarrow> (False, [])
      | c # r \<Rightarrow> if c = CHR ''-'' then (True, r)
                 else if c = CHR ''+'' then (False, r) else (False, s))"

definition signed :: "bool \<Rightarrow> 'a::uminus \<Rightarrow> 'a" where
  "signed neg x = (if neg then - x else x)"

text \<open>An optional sign and decimal digits, between blanks.\<close>

definition dec_int :: "string \<Rightarrow> int option" where
  "dec_int s =
     (case sign_split (ascii_strip s) of
        (neg, ds) \<Rightarrow>
          if ds \<noteq> [] \<and> list_all isdigit ds
          then Some (signed neg (int_of_digits ds))
          else None)"

definition scale10 :: "real \<Rightarrow> int \<Rightarrow> real" where
  "scale10 m k = (if 0 \<le> k then m * 10 ^ nat k else m / 10 ^ nat (- k))"

definition parse_exp :: "string \<Rightarrow> int option" where
  "parse_exp s =
     (case s of
        [] \<Rightarrow> Some 0
      | c # t \<Rightarrow>
          if c = CHR ''e'' \<or> c = CHR ''E''
          then (case sign_split t of
                  (neg, ds) \<Rightarrow>
                    if ds \<noteq> [] \<and> list_all isdigit ds
                    then Some (signed neg (int_of_digits ds))
                    else None)
          else None)"

definition split_frac :: "string \<Rightarrow> string \<times> string" where
  "split_frac s =
     (case s of
        [] \<Rightarrow> ([], [])
      | c # t \<Rightarrow> if c = CHR ''.'' then (takeWhile isdigit t, dropWhile isdigit t)
                 else ([], s))"

text \<open>
  The decimal literals
  \<open>[sign] (digits [. [digits]] | . digits) [(e|E) [sign] digits]\<close>, between blanks;
  the value is the real number the literal denotes.
\<close>

definition dec_float :: "string \<Rightarrow> real option" where
  "dec_float s =
     (case sign_split (ascii_strip s) of
        (neg, r) \<Rightarrow>
          (case split_frac (dropWhile isdigit r) of
             (fp, r2) \<Rightarrow>
               if takeWhile isdigit r = [] \<and> fp = [] then None
               else (case parse_exp r2 of
                       None \<Rightarrow> None
                     | Some ex \<Rightarrow>
                         Some (signed neg
                                (scale10 (of_int (int_of_digits (takeWhile isdigit r @ fp)))
                                   (ex - int (length fp)))))))"

definition pad_zeros :: "nat \<Rightarrow> string \<Rightarrow> string" where
  "pad_zeros w ds = replicate (w - length ds) CHR ''0'' @ ds"

definition round_half_even :: "real \<Rightarrow> int" where
  "round_half_even r =
     (if r - of_int \<lfloor>r\<rfloor> < 1 / 2 then \<lfloor>r\<rfloor>
      else if 1 / 2 < r - of_int \<lfloor>r\<rfloor> then \<lfloor>r\<rfloor> + 1
      else if even \<lfloor>r\<rfloor> then \<lfloor>r\<rfloor> else \<lfloor>r\<rfloor> + 1)"

definition sign_text :: "real \<Rightarrow> string" where
  "sign_text x = (if x < 0 then [CHR ''-''] else [])"

text \<open>
  The value with \<open>d\<close> decimals, for \<open>0 < d\<close>, and a minus sign for a negative
  value.
\<close>

definition dec_format_f :: "nat \<Rightarrow> real \<Rightarrow> string" where
  "dec_format_f d x =
     (let ds = pad_zeros (d + 1) (digits_of (round_half_even (\<bar>x\<bar> * 10 ^ d)))
      in sign_text x @ take (length ds - d) ds @ [CHR ''.''] @ drop (length ds - d) ds)"


text \<open>The decimal exponent of a positive number: \<open>10 ^ e \<le> x < 10 ^ (e + 1)\<close>.\<close>

function exp_up :: "real \<Rightarrow> int \<Rightarrow> int" where
  "exp_up x e = (if 10 \<le> x then exp_up (x / 10) (e + 1) else e)"
  by pat_completeness auto
termination
proof (relation "measure (\<lambda>(x, e). nat \<lfloor>x\<rfloor>)")
  fix x :: real and e :: int
  assume a: "10 \<le> x"
  have "x / 10 \<le> x - 9" using a by simp
  then have "\<lfloor>x / 10\<rfloor> \<le> \<lfloor>x - 9\<rfloor>" by (rule floor_mono)
  also have "\<dots> = \<lfloor>x\<rfloor> - 9" by linarith
  finally have "\<lfloor>x / 10\<rfloor> < \<lfloor>x\<rfloor>" by simp
  moreover have "0 < \<lfloor>x\<rfloor>" using a by linarith
  ultimately show "((x / 10, e + 1), (x, e)) \<in> measure (\<lambda>(x, e). nat \<lfloor>x\<rfloor>)"
    by simp
qed simp

function exp_down :: "real \<Rightarrow> int \<Rightarrow> int" where
  "exp_down x e = (if 0 < x \<and> x < 1 then exp_down (x * 10) (e - 1) else e)"
  by pat_completeness auto
termination
proof (relation "measure (\<lambda>(x, e). nat \<lceil>1 / x\<rceil>)")
  fix x :: real and e :: int
  assume a: "0 < x \<and> x < 1"
  define y where "y = 1 / x"
  have y: "1 < y" using a by (simp add: y_def)
  have t: "1 / (x * 10) = y / 10" by (simp add: y_def)
  define n where "n = (of_int \<lceil>y\<rceil> :: real)"
  have n1: "y \<le> n" unfolding n_def by (rule le_of_int_ceiling)
  have "2 \<le> \<lceil>y\<rceil>" using y by linarith
  then have n2: "2 \<le> n" unfolding n_def by linarith
  have "y / 10 \<le> n - 1" using n1 n2 by linarith
  then have "y / 10 \<le> of_int (\<lceil>y\<rceil> - 1)" by (simp add: n_def)
  then have "\<lceil>y / 10\<rceil> \<le> \<lceil>y\<rceil> - 1" by (rule ceiling_le)
  then have "\<lceil>1 / (x * 10)\<rceil> < \<lceil>1 / x\<rceil>" unfolding t by (simp add: y_def)
  moreover have "0 < \<lceil>1 / x\<rceil>" using y unfolding y_def by linarith
  ultimately show "((x * 10, e - 1), (x, e)) \<in> measure (\<lambda>(x, e). nat \<lceil>1 / x\<rceil>)"
    by simp
qed simp

declare exp_up.simps [simp del] exp_down.simps [simp del]
definition dec_exp :: "real \<Rightarrow> int" where
  "dec_exp x = (if 1 \<le> x then exp_up x 0 else exp_down x 0)"

text \<open>
  The value with one digit before the point and \<open>d\<close> decimals, for \<open>0 < d\<close>,
  and the exponent with its sign and at least two digits.
\<close>

definition dec_format_e :: "nat \<Rightarrow> real \<Rightarrow> string" where
  "dec_format_e d x =
     (if x = 0 then [CHR ''0'', CHR ''.''] @ replicate d CHR ''0'' @ ''e+00''
      else
        let e0 = dec_exp \<bar>x\<bar>;
            m0 = round_half_even (scale10 \<bar>x\<bar> (int d - e0));
            m = (if 10 ^ (d + 1) \<le> m0 then m0 div 10 else m0);
            e = (if 10 ^ (d + 1) \<le> m0 then e0 + 1 else e0);
            ds = pad_zeros (d + 1) (digits_of m)
        in sign_text x @ take 1 ds @ [CHR ''.''] @ drop 1 ds
           @ [CHR ''e'', if e < 0 then CHR ''-'' else CHR ''+'']
           @ pad_zeros 2 (digits_of \<bar>e\<bar>))"

definition dec_around :: "real \<Rightarrow> int \<Rightarrow> real" where
  "dec_around x d = scale10 (of_int (round_half_even (scale10 x d))) (- d)"

text \<open>The letters a to z in upper case; every other character is kept.\<close>

definition upper_char :: "char \<Rightarrow> char" where
  "upper_char c =
     (if (97::nat) \<le> of_char c \<and> of_char c \<le> (122::nat)
      then char_of (of_char c - (32::nat)) else c)"

definition ascii_upper :: "string \<Rightarrow> string" where
  "ascii_upper s = map upper_char s"

definition exact_builtins :: "real builtins" where
  "exact_builtins =
     \<lparr>py_int = dec_int,
      py_float = dec_float,
      float_lit = (\<lambda>s. case dec_float s of None \<Rightarrow> 0 | Some x \<Rightarrow> x),
      float_int = of_int,
      fadd = (+),
      fsub = (-),
      fmul = (*),
      fdiv = (/),
      np_around = dec_around,
      format_e = dec_format_e,
      format_f = dec_format_f,
      str_upper = ascii_upper\<rparr>"

section \<open>The specification's record of a catalog line\<close>

text \<open>
  The record the specification expects from one well-formed catalog line: the key is the
  integer field 0, the raw time is field 1 as a float, the time in years is the raw time
  multiplied by \<open>time2yrs\<close>, the format label is field 4, and the variable list is
  fields 6 onward.  A line is well formed when it has at least 5 fields and \<open>int\<close>
  and \<open>float\<close> accept its first two fields.
\<close>

definition log_record :: "'f builtins \<Rightarrow> string \<Rightarrow> (int \<times> 'f payload) option" where
  "log_record B line =
     (let items = split_ws line in
      if length items < 5 then None
      else (case (py_int B (items ! 0), py_float B (items ! 1)) of
              (Some n, Some t) \<Rightarrow>
                Some (n, \<lparr>time = fmul B t (time2yrs B), raw_time = t,
                          output_format = items ! 4, vars = drop 6 items\<rparr>)
            | _ \<Rightarrow> None))"

section \<open>The specification's header of a grid file\<close>

text \<open>
  The specification has one descriptor line for each axis with more than one point, in
  the order of the axes, giving the axis identifier, its first and last centre and its
  point count.
\<close>

definition active_dim_lines :: "'f builtins \<Rightarrow> 'f grid \<Rightarrow> string" where
  "active_dim_lines B grid =
     concat (map (\<lambda>(d, arr). header_dim_line B d (hd arr) (last arr) (length arr))
               (filter (\<lambda>(d, arr). 1 < length arr) grid))"

text \<open>
  The header with \<open>n\<close> as its number of dimensions and \<open>dims\<close> as its descriptor
  lines.
\<close>

definition header_text :: "'f builtins \<Rightarrow> nat \<Rightarrow> string \<Rightarrow> string \<Rightarrow> string" where
  "header_text B n geometry dims =
     ''# ******************************************************'' @ nl
     @ ''# PLUTO 4.2 Grid File'' @ nl
     @ ''# Generated on  Mon Jul 10 10:10:10 2017'' @ nl
     @ ''#'' @ nl
     @ ''# DIMENSIONS: '' @ str_int (int n) @ nl
     @ ''# GEOMETRY:   '' @ str_upper B geometry @ nl
     @ dims
     @ ''# ******************************************************'' @ nl"

section \<open>Config reader: agreement of two documents on a section\<close>

text \<open>
  Two documents that agree on section \<open>s\<close> and both hold the active section keep
  doing so, line after line: what section \<open>s\<close> receives from a line does not depend
  on the rest of the document.
\<close>

definition agree_on :: "string \<Rightarrow> config \<times> string option \<Rightarrow> config \<times> string option \<Rightarrow> bool"
  where
  "agree_on s a b \<longleftrightarrow>
     snd a = snd b \<and> map_of (fst a) s = map_of (fst b) s \<and>
     (\<forall>t. snd a = Some t \<longrightarrow> map_of (fst a) t \<noteq> None \<and> map_of (fst b) t \<noteq> None)"

section \<open>The specification's re-reading of a written grid\<close>


text \<open>
  The float that \<open>float\<close> reads from the text that \<open>'{:.12e}'\<close> writes for
  \<open>x\<close>.
\<close>

definition reread :: "'f builtins \<Rightarrow> 'f \<Rightarrow> 'f" where
  "reread B x = the (py_float B (format_e B 12 x))"

text \<open>
  The centre that \<open>process_grid_line\<close> finds in the row written for the edges
  \<open>l\<close> and \<open>r\<close>: the midpoint of the two edges read back in the current format,
  the third field read back in the legacy format.
\<close>

definition row_value :: "'f builtins \<Rightarrow> bool \<Rightarrow> 'f scalar \<Rightarrow> 'f scalar \<Rightarrow> 'f" where
  "row_value B pluto4 l r =
     (if pluto4
      then fdiv B (fadd B (reread B (scalar_float B l)) (reread B (scalar_float B r)))
             (float_int B 2)
      else reread B (fmul B (float_lit B ''0.5'') (scalar_float B (scalar_add B r l))))"

text \<open>The rows written for an axis, and the centres found in them.\<close>

definition axis_rows :: "'f builtins \<Rightarrow> bool \<Rightarrow> 'f list \<Rightarrow> string list" where
  "axis_rows B pluto4 arr =
     map (\<lambda>i. if pluto4
               then row_v4 B i (fst (axis_edges B arr) ! i) (snd (axis_edges B arr) ! i)
               else row_v3 B i (fst (axis_edges B arr) ! i) (snd (axis_edges B arr) ! i))
       [0 ..< length arr]"

definition axis_values :: "'f builtins \<Rightarrow> bool \<Rightarrow> 'f list \<Rightarrow> 'f list" where
  "axis_values B pluto4 arr =
     map (\<lambda>i. row_value B pluto4 (fst (axis_edges B arr) ! i) (snd (axis_edges B arr) ! i))
       [0 ..< length arr]"

section \<open>Basic facts\<close>

lemma ebind_Inl [simp]: "ebind (Inl e) f = Inl e"
  by (simp add: ebind_def)

lemma ebind_Inr [simp]: "ebind (Inr x) f = f x"
  by (simp add: ebind_def)

lemma getitem_in [simp]: "i < length xs \<Longrightarrow> getitem xs i = Inr (xs ! i)"
  by (simp add: getitem_def)

lemma getitem_out [simp]: "length xs \<le> i \<Longrightarrow> getitem xs i = Inl IndexError"
  by (simp add: getitem_def)

lemma exact_fields [simp]:
  "py_int exact_builtins = dec_int"
  "py_float exact_builtins = dec_float"
  "float_int exact_builtins = of_int"
  "fadd exact_builtins = (+)"
  "fsub exact_builtins = (-)"
  "fmul exact_builtins = (*)"
  "fdiv exact_builtins = (/)"
  "np_around exact_builtins = dec_around"
  "format_e exact_builtins = dec_format_e"
  "format_f exact_builtins = dec_format_f"
  "str_upper exact_builtins = ascii_upper"
  by (simp_all add: exact_builtins_def)

section \<open>Grid lines\<close>

text \<open>
  C1.  For every grid data line and whatever the interpreter's float operations are:
  when the line has exactly 5 whitespace-separated fields, \<open>process_grid_line\<close>
  returns \<open>float\<close> of its third field (and raises the ValueError of \<open>float\<close>
  when that is refused); when it has 3 fields of which \<open>float\<close> reads the second
  as \<open>a\<close> and the third as \<open>b\<close>, it returns the midpoint \<open>(a + b) / 2\<close>, the
  sum and the quotient being those of the floats.
\<close>

theorem process_grid_line_fields:
  "(length (split_ws line) = 5 \<longrightarrow>
      process_grid_line B line = to_float B (split_ws line ! 2)) \<and>
   (length (split_ws line) = 3 \<and> py_float B (split_ws line ! 1) = Some a
      \<and> py_float B (split_ws line ! 2) = Some b
    \<longrightarrow> process_grid_line B line = Inr (fdiv B (fadd B a b) (float_int B 2)))"
  by (simp add: process_grid_line_def Let_def to_float_def)

theorem process_grid_line_fields_witness:
  "length (split_ws ''1 0.25 7.5 1.0 1.0'') = 5
   \<and> process_grid_line exact_builtins ''1 0.25 7.5 1.0 1.0'' = Inr (15 / 2)
   \<and> length (split_ws ('' 1'' @ tab @ ''2.500000000000e-01'' @ tab @ ''1.000000000000e+00'' @ nl)) = 3
   \<and> process_grid_line exact_builtins
        ('' 1'' @ tab @ ''2.500000000000e-01'' @ tab @ ''1.000000000000e+00'' @ nl)
       = Inr (5 / 8)"
proof -
  let ?l5 = "''1 0.25 7.5 1.0 1.0''"
  let ?l3 = "'' 1'' @ tab @ ''2.500000000000e-01'' @ tab @ ''1.000000000000e+00'' @ nl"
  have s5: "split_ws ?l5 = [''1'', ''0.25'', ''7.5'', ''1.0'', ''1.0'']"
    by code_simp
  have s3: "split_ws ?l3 = [''1'', ''2.500000000000e-01'', ''1.000000000000e+00'']"
    by code_simp
  have p5: "dec_float ''7.5'' = Some (15 / 2)"
    by code_simp
  have pa: "dec_float ''2.500000000000e-01'' = Some (1 / 4)"
    by code_simp
  have pb: "dec_float ''1.000000000000e+00'' = Some 1"
    by code_simp
  have "process_grid_line exact_builtins ?l5 = Inr (15 / 2)"
    using process_grid_line_fields [of ?l5 exact_builtins] s5 p5 by (simp add: to_float_def)
  moreover have "process_grid_line exact_builtins ?l3 = Inr ((1 / 4 + 1) / 2)"
    using process_grid_line_fields [of ?l3 exact_builtins "1 / 4" 1] s3 pa pb by simp
  ultimately show ?thesis
    using s5 s3 by simp
qed

text \<open>
  C9 as stated fails: a line with four fields is not refused, it is read like a line with
  three fields.  (The floats 0.0, 1.0 and 0.5 are exact.)
\<close>

theorem process_grid_line_four_fields:
  "length (split_ws ''1 0.0 1.0 9'') = 4
   \<and> process_grid_line exact_builtins ''1 0.0 1.0 9'' = Inr (1 / 2)"
proof -
  have s: "split_ws ''1 0.0 1.0 9'' = [''1'', ''0.0'', ''1.0'', ''9'']"
    by code_simp
  have pa: "dec_float ''0.0'' = Some 0"
    by code_simp
  have pb: "dec_float ''1.0'' = Some 1"
    by code_simp
  show ?thesis
    using s pa pb by (simp add: process_grid_line_def to_float_def)
qed

text \<open>
  C9, amended.  For a grid data line whose field count is not 5, and whatever the
  interpreter's float operations are: with fewer than two fields the conversion fails
  with an IndexError; with two fields it fails, with the ValueError of \<open>float\<close> when
  field 2 is refused and with an IndexError otherwise; with three or more fields (so
  also with four, or with more than five) it is the midpoint of \<open>float\<close> of field 2
  and \<open>float\<close> of field 3, and it fails exactly when \<open>float\<close> refuses one of the
  two, with that ValueError.
\<close>

theorem process_grid_line_other_counts:
  assumes "length (split_ws line) \<noteq> 5"
  shows "(length (split_ws line) < 2 \<longrightarrow> process_grid_line B line = Inl IndexError) \<and>
         (length (split_ws line) = 2 \<longrightarrow>
            process_grid_line B line
              = (case py_float B (split_ws line ! 1) of
                   None \<Rightarrow> Inl ValueError | Some a \<Rightarrow> Inl IndexError)) \<and>
         (3 \<le> length (split_ws line) \<longrightarrow>
            process_grid_line B line
              = (case (py_float B (split_ws line ! 1), py_float B (split_ws line ! 2)) of
                   (Some a, Some b) \<Rightarrow> Inr (fdiv B (fadd B a b) (float_int B 2))
                 | _ \<Rightarrow> Inl ValueError))"
  using assms
  by (simp add: process_grid_line_def Let_def to_float_def split: option.splits)

theorem process_grid_line_other_counts_witness:
  "length (split_ws ''1 0.0 1.0 9'') \<noteq> 5
   \<and> 3 \<le> length (split_ws ''1 0.0 1.0 9'')
   \<and> process_grid_line exact_builtins ''1 0.0 1.0 9'' = Inr (1 / 2)"
proof -
  have s: "split_ws ''1 0.0 1.0 9'' = [''1'', ''0.0'', ''1.0'', ''9'']"
    by code_simp
  have pa: "dec_float ''0.0'' = Some 0"
    by code_simp
  have pb: "dec_float ''1.0'' = Some 1"
    by code_simp
  have "length (split_ws ''1 0.0 1.0 9'') \<noteq> 5"
    using s by simp
  from process_grid_line_other_counts [OF this, of exact_builtins] show ?thesis
    using s pa pb by simp
qed

section \<open>Output log\<close>

lemma log_line_short: "length (split_ws l) < 5 \<Longrightarrow> isl (log_line B data l)"
  by (auto simp: log_line_def Let_def ebind_def getitem_def split: sum.splits)

lemma log_line_errors:
  "log_line B data l = Inl e \<Longrightarrow> e = IndexError \<or> e = ValueError"
  by (auto simp: log_line_def Let_def ebind_def getitem_def to_int_def to_float_def
        split: sum.splits if_splits option.splits)

lemma log_lines_errors:
  "log_lines B data ls = Inl e \<Longrightarrow> e = IndexError \<or> e = ValueError"
proof (induction ls arbitrary: data)
  case Nil
  then show ?case by simp
next
  case (Cons a ls)
  show ?case
  proof (cases "log_line B data a")
    case (Inl e')
    with Cons.prems have "e' = e" by simp
    with Inl log_line_errors show ?thesis by blast
  next
    case (Inr data')
    with Cons show ?thesis by simp
  qed
qed

lemma log_lines_short:
  "l \<in> set ls \<Longrightarrow> length (split_ws l) < 5 \<Longrightarrow> isl (log_lines B data ls)"
proof (induction ls arbitrary: data)
  case Nil
  then show ?case by simp
next
  case (Cons a ls)
  show ?case
  proof (cases "log_line B data a")
    case (Inl e)
    then show ?thesis by simp
  next
    case (Inr data')
    with Cons.prems log_line_short [of a B data] have "l \<in> set ls"
      by auto
    with Cons.IH Cons.prems(2) Inr show ?thesis by simp
  qed
qed

lemma log_lines_short_error:
  assumes "l \<in> set ls" and "length (split_ws l) < 5"
  shows "log_lines B data ls = Inl IndexError \<or> log_lines B data ls = Inl ValueError"
proof -
  from log_lines_short [OF assms, of B data] obtain e where "log_lines B data ls = Inl e"
    by (cases "log_lines B data ls") auto
  with log_lines_errors [of B data ls e] show ?thesis
    by auto
qed

lemma log_line_record:
  "log_record B l = Some (n, p) \<Longrightarrow> log_line B data l = Inr (AList.update n p data)"
  by (auto simp: log_record_def log_line_def Let_def getitem_def to_int_def to_float_def
        split: if_splits option.splits)

lemma log_lines_records:
  "\<forall>l \<in> set ls. log_record B l \<noteq> None \<Longrightarrow>
   log_lines B data ls
     = Inr (foldl (\<lambda>d r. AList.update (fst r) (snd r) d) data (map (the \<circ> log_record B) ls))"
proof (induction ls arbitrary: data)
  case Nil
  then show ?case by simp
next
  case (Cons a ls)
  then obtain n p where r: "log_record B a = Some (n, p)"
    by fastforce
  with Cons show ?case
    by (simp add: log_line_record)
qed

lemma map_of_foldl_update:
  "map_of (foldl (\<lambda>d r. AList.update (fst r) (snd r) d) data rs)
     = map_of data ++ map_of (rev rs)"
proof (induction rs arbitrary: data)
  case Nil
  then show ?case by simp
next
  case (Cons r rs)
  show ?case
    by (simp add: Cons.IH update_conv' map_add_upd_left [symmetric] fun_eq_iff map_add_def
          split: option.splits)
qed

lemma distinct_foldl_update:
  "distinct (map fst data) \<Longrightarrow>
   distinct (map fst (foldl (\<lambda>d r. AList.update (fst r) (snd r) d) data rs))"
  by (induction rs arbitrary: data) (simp_all add: distinct_update)

lemma map_of_rev_last:
  "map_of (rev rs) k
     = (case filter (\<lambda>r. fst r = k) rs of [] \<Rightarrow> None | r # rs' \<Rightarrow> Some (snd (last (r # rs'))))"
proof (induction rs)
  case Nil
  then show ?case by simp
next
  case (Cons r rs)
  then show ?case
    by (cases r) (auto simp: map_add_def split: option.splits list.splits)
qed

text \<open>
  C7 as stated fails: a catalog line with 5 fields (fewer than 7) is read without error;
  the slice \<open>items[6:]\<close> of a short list is the empty list.
\<close>

theorem read_output_log_five_fields:
  "length (split_ws ''3 12.5 0.0 100 dbl'') = 5
   \<and> read_output_log exact_builtins (''3 12.5 0.0 100 dbl'' @ nl)
       = Inr [(3, \<lparr>time = fmul exact_builtins (25 / 2) (time2yrs exact_builtins),
                   raw_time = 25 / 2, output_format = ''dbl'', vars = []\<rparr>)]"
proof -
  have s: "split_ws (''3 12.5 0.0 100 dbl'' @ nl) = [''3'', ''12.5'', ''0.0'', ''100'', ''dbl'']"
    by code_simp
  have s': "split_ws ''3 12.5 0.0 100 dbl'' = [''3'', ''12.5'', ''0.0'', ''100'', ''dbl'']"
    by code_simp
  have r: "readlines (''3 12.5 0.0 100 dbl'' @ nl) = [''3 12.5 0.0 100 dbl'' @ nl]"
    by code_simp
  have i: "dec_int ''3'' = Some 3"
    by code_simp
  have f: "dec_float ''12.5'' = Some (25 / 2)"
    by code_simp
  show ?thesis
    using s s' r i f by (simp add: read_output_log_def log_line_def to_int_def to_float_def)
qed

text \<open>
  C7, amended.  Every catalog file containing a line with fewer than 5
  whitespace-separated fields makes \<open>read_output_log\<close> fail, with an IndexError or
  a ValueError; a line with 5 or 6 fields whose first field \<open>int\<close> reads and whose
  second field \<open>float\<close> reads is accepted, with an empty variable list.
\<close>

theorem read_output_log_short_line:
  "(l \<in> set (readlines content) \<and> length (split_ws l) < 5
      \<longrightarrow> read_output_log B content = Inl IndexError
          \<or> read_output_log B content = Inl ValueError) \<and>
   ((length (split_ws l) = 5 \<or> length (split_ws l) = 6)
      \<and> py_int B (split_ws l ! 0) = Some n \<and> py_float B (split_ws l ! 1) = Some t
      \<longrightarrow> log_line B data l
            = Inr (AList.update n
                     \<lparr>time = fmul B t (time2yrs B), raw_time = t,
                      output_format = split_ws l ! 4, vars = []\<rparr> data))"
  using log_lines_short_error [of l "readlines content" B "[]"]
  by (auto simp: read_output_log_def log_line_def to_int_def to_float_def)

theorem read_output_log_short_line_witness:
  "''3 12.5 0.0 100'' @ nl \<in> set (readlines (''3 12.5 0.0 100'' @ nl))
   \<and> length (split_ws (''3 12.5 0.0 100'' @ nl)) < 5
   \<and> read_output_log exact_builtins (''3 12.5 0.0 100'' @ nl) = Inl IndexError
   \<and> length (split_ws ''3 12.5 0.0 100 dbl'') = 5
   \<and> log_line exact_builtins [] ''3 12.5 0.0 100 dbl''
       = Inr [(3, \<lparr>time = fmul exact_builtins (25 / 2) (time2yrs exact_builtins),
                   raw_time = 25 / 2, output_format = ''dbl'', vars = []\<rparr>)]"
proof -
  have s4: "split_ws (''3 12.5 0.0 100'' @ nl) = [''3'', ''12.5'', ''0.0'', ''100'']"
    by code_simp
  have r4: "readlines (''3 12.5 0.0 100'' @ nl) = [''3 12.5 0.0 100'' @ nl]"
    by code_simp
  have s5: "split_ws ''3 12.5 0.0 100 dbl'' = [''3'', ''12.5'', ''0.0'', ''100'', ''dbl'']"
    by code_simp
  have i: "dec_int ''3'' = Some 3"
    by code_simp
  have f: "dec_float ''12.5'' = Some (25 / 2)"
    by code_simp
  have v: "read_output_log exact_builtins (''3 12.5 0.0 100'' @ nl) \<noteq> Inl ValueError"
    using s4 r4 i f by (simp add: read_output_log_def log_line_def to_int_def to_float_def)
  have a: "read_output_log exact_builtins (''3 12.5 0.0 100'' @ nl) = Inl IndexError"
    using read_output_log_short_line
      [of "''3 12.5 0.0 100'' @ nl" "''3 12.5 0.0 100'' @ nl" exact_builtins 0 0 "[]"] s4 r4 v
    by simp
  have b: "log_line exact_builtins [] ''3 12.5 0.0 100 dbl''
       = Inr [(3, \<lparr>time = fmul exact_builtins (25 / 2) (time2yrs exact_builtins),
                   raw_time = 25 / 2, output_format = ''dbl'', vars = []\<rparr>)]"
    using read_output_log_short_line
      [of "''3 12.5 0.0 100 dbl''" "[]" exact_builtins 3 "25 / 2" "[]"] s5 i f
    by simp
  show ?thesis
    using a b s4 r4 s5 by simp
qed

text \<open>
  C8.  The conversion factor \<open>time2yrs\<close> is the quotient of the float literals
  \<open>3.0856775807e18\<close> and \<open>1.0e5\<close>, divided by the integer \<open>365 * 24 * 3600\<close>.
  For a catalog all of whose lines are well formed, \<open>read_output_log\<close> returns a
  mapping with distinct integer keys; the entry at index \<open>k\<close> is the record of the
  last line whose first field is \<open>k\<close> (raw time, time in years equal to the float
  product of the raw time and \<open>time2yrs\<close>, format label, variable list), and there
  is no entry when no line has that index.
\<close>

theorem read_output_log_catalog:
  assumes "\<forall>l \<in> set (readlines content). log_record B l \<noteq> None"
  shows "time2yrs B
           = fdiv B (fdiv B (float_lit B ''3.0856775807e18'') (float_lit B ''1.0e5''))
               (float_int B 31536000) \<and>
         (\<exists>data. read_output_log B content = Inr data \<and> distinct (map fst data) \<and>
           (\<forall>k. map_of data k
                  = (case filter (\<lambda>r. fst r = k)
                            (map (the \<circ> log_record B) (readlines content)) of
                       [] \<Rightarrow> None
                     | r # rs \<Rightarrow> Some (snd (last (r # rs))))))"
proof
  show "time2yrs B
           = fdiv B (fdiv B (float_lit B ''3.0856775807e18'') (float_lit B ''1.0e5''))
               (float_int B 31536000)"
    by (simp add: time2yrs_def UNIT_TIME_def UNIT_LENGTH_def UNIT_VELOCITY_def CONST_pc_def)
  show "\<exists>data. read_output_log B content = Inr data \<and> distinct (map fst data) \<and>
           (\<forall>k. map_of data k
                  = (case filter (\<lambda>r. fst r = k)
                            (map (the \<circ> log_record B) (readlines content)) of
                       [] \<Rightarrow> None
                     | r # rs \<Rightarrow> Some (snd (last (r # rs)))))"
    using assms
    by (simp add: read_output_log_def log_lines_records distinct_foldl_update
          map_of_foldl_update map_of_rev_last)
qed

theorem read_output_log_catalog_witness:
  "(\<exists>data. read_output_log exact_builtins
             (''3 12.5 0.0 100 dbl 0 rho vx1 vx2'' @ nl @ ''3 13.5 0.0 100 flt 0 rho'' @ nl)
             = Inr data \<and>
           map_of data 3
             = Some \<lparr>time = fmul exact_builtins (27 / 2) (time2yrs exact_builtins),
                     raw_time = 27 / 2, output_format = ''flt'', vars = [''rho'']\<rparr>)"
proof -
  define c where "c = ''3 12.5 0.0 100 dbl 0 rho vx1 vx2'' @ nl @ ''3 13.5 0.0 100 flt 0 rho'' @ nl"
  have r: "readlines c = [''3 12.5 0.0 100 dbl 0 rho vx1 vx2'' @ nl, ''3 13.5 0.0 100 flt 0 rho'' @ nl]"
    unfolding c_def by code_simp
  have s1: "split_ws (''3 12.5 0.0 100 dbl 0 rho vx1 vx2'' @ nl)
      = [''3'', ''12.5'', ''0.0'', ''100'', ''dbl'', ''0'', ''rho'', ''vx1'', ''vx2'']"
    by code_simp
  have s2: "split_ws (''3 13.5 0.0 100 flt 0 rho'' @ nl)
      = [''3'', ''13.5'', ''0.0'', ''100'', ''flt'', ''0'', ''rho'']"
    by code_simp
  have i: "dec_int ''3'' = Some 3"
    by code_simp
  have f1: "dec_float ''12.5'' = Some (25 / 2)"
    by code_simp
  have f2: "dec_float ''13.5'' = Some (27 / 2)"
    by code_simp
  have r1: "log_record exact_builtins (''3 12.5 0.0 100 dbl 0 rho vx1 vx2'' @ nl)
      = Some (3, \<lparr>time = fmul exact_builtins (25 / 2) (time2yrs exact_builtins),
                  raw_time = 25 / 2, output_format = ''dbl'',
                  vars = [''rho'', ''vx1'', ''vx2'']\<rparr>)"
    using s1 i f1 by (simp add: log_record_def)
  have r2: "log_record exact_builtins (''3 13.5 0.0 100 flt 0 rho'' @ nl)
      = Some (3, \<lparr>time = fmul exact_builtins (27 / 2) (time2yrs exact_builtins),
                  raw_time = 27 / 2, output_format = ''flt'', vars = [''rho'']\<rparr>)"
    using s2 i f2 by (simp add: log_record_def)
  have h: "\<forall>l \<in> set (readlines c). log_record exact_builtins l \<noteq> None"
    using r r1 r2 by simp
  from read_output_log_catalog [OF h] obtain data where
    d: "read_output_log exact_builtins c = Inr data"
    and m: "\<forall>k. map_of data k
                  = (case filter (\<lambda>r. fst r = k)
                            (map (the \<circ> log_record exact_builtins) (readlines c)) of
                       [] \<Rightarrow> None
                     | r # rs \<Rightarrow> Some (snd (last (r # rs))))"
    by blast
  have "map_of data 3
          = Some \<lparr>time = fmul exact_builtins (27 / 2) (time2yrs exact_builtins),
                  raw_time = 27 / 2, output_format = ''flt'', vars = [''rho'']\<rparr>"
    using m r r1 r2 by simp
  with d show ?thesis
    unfolding c_def by blast
qed

section \<open>Config reader\<close>

lemma isspace_space [simp]: "isspace CHR '' ''"
  by (simp add: isspace_def)

lemma split_space1_in:
  "CHR '' '' \<in> set s \<Longrightarrow>
   split_space1 s = [takeWhile (\<lambda>c. c \<noteq> CHR '' '') s, tl (dropWhile (\<lambda>c. c \<noteq> CHR '' '') s)]"
  by (simp add: split_space1_def)

lemma split_space1_out: "CHR '' '' \<notin> set s \<Longrightarrow> split_space1 s = [s]"
  by (simp add: split_space1_def)

lemma dict_get_Some [simp]: "map_of d k = Some v \<Longrightarrow> dict_get d k = Inr v"
  by (simp add: dict_get_def)

lemma dict_get_None [simp]: "map_of d k = None \<Longrightarrow> dict_get d k = Inl KeyError"
  by (simp add: dict_get_def)

lemma spec_split_kv_space:
  assumes "takeWhile (\<lambda>c. \<not> isspace c) line = takeWhile (\<lambda>c. c \<noteq> CHR '' '') line"
    and "CHR '' '' \<in> set line"
  shows "spec_split_kv line
           = (takeWhile (\<lambda>c. c \<noteq> CHR '' '') line,
              strip (tl (dropWhile (\<lambda>c. c \<noteq> CHR '' '') line)))"
proof -
  let ?P = "\<lambda>c. \<not> isspace c" and ?Q = "\<lambda>c. c \<noteq> CHR '' ''"
  have d: "dropWhile ?P line = dropWhile ?Q line"
    by (simp only: dropWhile_eq_drop assms(1))
  have ne: "dropWhile ?Q line \<noteq> []"
    using assms(2) by (auto simp: dropWhile_eq_Nil_conv)
  then have "hd (dropWhile ?Q line) = CHR '' ''"
    using hd_dropWhile [of ?Q line] by simp
  with ne obtain rest where r: "dropWhile ?Q line = CHR '' '' # rest"
    by (cases "dropWhile ?Q line") auto
  show ?thesis
    unfolding spec_split_kv_def d r assms(1) by (simp add: strip_def lstrip_def)
qed

text \<open>
  C6 as stated fails: the split is at the first space character, not at the first run of
  whitespace.  A tab inside the line stays in the key, and a line without a space
  character is refused, although it has a whitespace run.
\<close>

theorem config_line_tab_separator:
  "config_line ([(''s'', [])], Some ''s'') (''a'' @ tab @ ''b c'' @ nl)
     = Inr ([(''s'', [(''a'' @ tab @ ''b'', ''c'')])], Some ''s'')
   \<and> spec_split_kv (strip (''a'' @ tab @ ''b c'' @ nl)) = (''a'', ''b c'')
   \<and> config_line ([(''s'', [])], Some ''s'') (''key'' @ tab @ ''value'' @ nl) = Inl ValueError"
proof -
  have "config_line ([(''s'', [])], Some ''s'') (''a'' @ tab @ ''b c'' @ nl)
     = Inr ([(''s'', [(''a'' @ tab @ ''b'', ''c'')])], Some ''s'')"
    by code_simp
  moreover have "spec_split_kv (strip (''a'' @ tab @ ''b c'' @ nl)) = (''a'', ''b c'')"
    by code_simp
  moreover have
    "config_line ([(''s'', [])], Some ''s'') (''key'' @ tab @ ''value'' @ nl) = Inl ValueError"
    by code_simp
  ultimately show ?thesis by simp
qed

text \<open>
  C6, amended.  With \<open>line\<close> the trimmed line: a blank line changes nothing; a line
  that starts with \<open>[\<close> and ends with \<open>]\<close> activates the section named by the
  line without its leading \<open>[\<close> and trailing \<open>]\<close> characters, with a fresh empty
  key map; any other line without a space character fails with a ValueError; any other
  line with a space character, while a section is active, is split at its first space
  character into a key and a value (the value trimmed on both sides), and the pair is
  stored into the active section's map, overwriting any prior value of that key and
  leaving the other keys alone.  When the line's first whitespace character is a space,
  this is the split on the first whitespace run.
\<close>

theorem config_line_cases:
  assumes "line = strip raw"
  shows
    "(line = [] \<longrightarrow> config_line (data, section) raw = Inr (data, section)) \<and>
     (startswith line ''['' \<and> endswith line '']'' \<longrightarrow>
        config_line (data, section) raw
          = Inr (AList.update (rstrip_chars '']'' (lstrip_chars ''['' line)) [] data,
                 Some (rstrip_chars '']'' (lstrip_chars ''['' line))) \<and>
        map_of (AList.update (rstrip_chars '']'' (lstrip_chars ''['' line)) [] data)
          (rstrip_chars '']'' (lstrip_chars ''['' line)) = Some []) \<and>
     (line \<noteq> [] \<and> \<not> (startswith line ''['' \<and> endswith line '']'') \<and> CHR '' '' \<notin> set line \<longrightarrow>
        config_line (data, section) raw = Inl ValueError) \<and>
     (line \<noteq> [] \<and> \<not> (startswith line ''['' \<and> endswith line '']'') \<and> CHR '' '' \<in> set line \<and>
      section = Some s \<and> map_of data s = Some m \<and>
      key = takeWhile (\<lambda>c. c \<noteq> CHR '' '') line \<and>
      val = strip (tl (dropWhile (\<lambda>c. c \<noteq> CHR '' '') line)) \<longrightarrow>
        config_line (data, section) raw
          = Inr (AList.update s (AList.update key val m) data, Some s) \<and>
        map_of (AList.update key val m) key = Some val \<and>
        (\<forall>k. k \<noteq> key \<longrightarrow> map_of (AList.update key val m) k = map_of m k) \<and>
        (takeWhile (\<lambda>c. \<not> isspace c) line = takeWhile (\<lambda>c. c \<noteq> CHR '' '') line \<longrightarrow>
           spec_split_kv line = (key, val)))"
  using assms
  by (auto simp: config_line_def Let_def split_space1_in split_space1_out update_conv'
        spec_split_kv_space startswith_def)

theorem config_line_cases_witness:
  "config_line ([(''s'', [(''k'', ''old'')])], Some ''s'') nl
     = Inr ([(''s'', [(''k'', ''old'')])], Some ''s'')
   \<and> config_line ([(''s'', [(''k'', ''old'')])], Some ''s'') (''[t]'' @ nl)
     = Inr ([(''s'', [(''k'', ''old'')]), (''t'', [])], Some ''t'')
   \<and> config_line ([(''s'', [(''k'', ''old'')])], Some ''s'') (''key'' @ nl) = Inl ValueError
   \<and> config_line ([(''s'', [(''k'', ''old'')])], Some ''s'') (''k   new v '' @ nl)
     = Inr ([(''s'', [(''k'', ''new v'')])], Some ''s'')
   \<and> spec_split_kv ''k   new v'' = (''k'', ''new v'')"
proof -
  let ?data = "[(''s'', [(''k'', ''old'')])]"
  have l1: "[] = strip nl"
    by code_simp
  have l2: "''[t]'' = strip (''[t]'' @ nl)"
    by code_simp
  have l3: "''key'' = strip (''key'' @ nl)"
    by code_simp
  have l4: "''k   new v'' = strip (''k   new v '' @ nl)"
    by code_simp
  have n2: "rstrip_chars '']'' (lstrip_chars ''['' ''[t]'') = ''t''"
    by code_simp
  have v4: "strip (tl (dropWhile (\<lambda>c. c \<noteq> CHR '' '') ''k   new v'')) = ''new v''"
    by code_simp
  have t4: "takeWhile (\<lambda>c. \<not> isspace c) ''k   new v'' = ''k''"
    by code_simp
  have w1: "config_line (?data, Some ''s'') nl = Inr (?data, Some ''s'')"
    using config_line_cases [OF l1, of ?data "Some ''s''"] by simp
  have w2: "config_line (?data, Some ''s'') (''[t]'' @ nl)
              = Inr ([(''s'', [(''k'', ''old'')]), (''t'', [])], Some ''t'')"
    using config_line_cases [OF l2, of ?data "Some ''s''"] n2
    by (simp add: startswith_def endswith_def)
  have w3: "config_line (?data, Some ''s'') (''key'' @ nl) = Inl ValueError"
    using config_line_cases [OF l3, of ?data "Some ''s''"]
    by (simp add: startswith_def endswith_def)
  have w4: "config_line (?data, Some ''s'') (''k   new v '' @ nl)
              = Inr ([(''s'', [(''k'', ''new v'')])], Some ''s'')
            \<and> spec_split_kv ''k   new v'' = (''k'', ''new v'')"
    using config_line_cases
      [OF l4, of ?data "Some ''s''" "''s''" "[(''k'', ''old'')]" "''k''" "''new v''"] v4 t4
    by (simp add: startswith_def endswith_def)
  show ?thesis
    using w1 w2 w3 w4 by simp
qed

lemma config_lines_append:
  "config_lines st (xs @ ys) = ebind (config_lines st xs) (\<lambda>st'. config_lines st' ys)"
  by (induction xs arbitrary: st) (auto simp: ebind_def split: sum.splits)

lemma config_line_keys:
  "config_line (d, sec) l = Inr (d', sec') \<Longrightarrow> \<exists>extra. map fst d' = map fst d @ extra"
  by (auto simp: config_line_def Let_def update_keys ebind_def dict_get_def image_iff
        split: if_splits list.splits option.splits)

lemma config_lines_keys:
  "config_lines st ls = Inr st' \<Longrightarrow> \<exists>extra. map fst (fst st') = map fst (fst st) @ extra"
proof (induction ls arbitrary: st)
  case Nil
  then show ?case by simp
next
  case (Cons l ls)
  obtain d sec where st: "st = (d, sec)"
    by (cases st)
  from Cons.prems obtain d2 sec2 where
    one: "config_line (d, sec) l = Inr (d2, sec2)" and
    rest: "config_lines (d2, sec2) ls = Inr st'"
    unfolding st by (cases "config_line (d, sec) l") auto
  from config_line_keys [OF one] obtain e1 where "map fst d2 = map fst d @ e1"
    by blast
  moreover from Cons.IH [OF rest] obtain e2 where "map fst (fst st') = map fst d2 @ e2"
    by auto
  ultimately show ?case
    unfolding st by simp
qed

lemma config_line_agree:
  assumes "agree_on s a b" and "config_line a l = Inr a'"
  shows "\<exists>b'. config_line b l = Inr b' \<and> agree_on s a' b'"
proof -
  obtain da sec where a: "a = (da, sec)"
    by (cases a)
  obtain db where b: "b = (db, sec)"
    using assms(1) a by (cases b) (simp add: agree_on_def)
  show ?thesis
    using assms unfolding a b
    by (auto simp: agree_on_def config_line_def Let_def update_conv' dict_get_def ebind_def
          split: if_splits list.splits option.splits)
qed

lemma config_lines_agree:
  "agree_on s a b \<Longrightarrow> config_lines a ls = Inr a' \<Longrightarrow>
   \<exists>b'. config_lines b ls = Inr b' \<and> agree_on s a' b'"
proof (induction ls arbitrary: a b)
  case Nil
  then show ?case by simp
next
  case (Cons l ls)
  from Cons.prems(2) obtain a2 where
    one: "config_line a l = Inr a2" and rest: "config_lines a2 ls = Inr a'"
    by (cases "config_line a l") auto
  from config_line_agree [OF Cons.prems(1) one] obtain b2 where
    b2: "config_line b l = Inr b2" "agree_on s a2 b2"
    by blast
  from Cons.IH [OF b2(2) rest] b2(1) show ?case
    by simp
qed

text \<open>
  C10.  When a config file has a header for a section \<open>s\<close> that an earlier header
  already declared, the pairs of section \<open>s\<close> in the document that
  \<open>read_config\<close> returns are those that reading the file from the later header on
  gives it (the pairs stored under the earlier occurrence are discarded), and the section
  names declared before the later header keep their places in the iteration order, so
  \<open>s\<close> stays at the position of its first occurrence.
\<close>

theorem read_config_redeclared_section:
  assumes "readlines content = pre @ h # post"
    and "config_lines ([], None) pre = Inr (d1, sec1)"
    and "map_of d1 s \<noteq> None"
    and "startswith (strip h) ''['' \<and> endswith (strip h) '']''"
    and "rstrip_chars '']'' (lstrip_chars ''['' (strip h)) = s"
    and "read_config content = Inr d"
  shows "(\<exists>d' sec'. config_lines ([], None) (h # post) = Inr (d', sec')
            \<and> map_of d s = map_of d' s) \<and>
         (\<exists>extra. map fst d = map fst d1 @ extra)"
proof -
  from assms(6) obtain sec where
    all: "config_lines ([], None) (pre @ h # post) = Inr (d, sec)"
    unfolding read_config_def assms(1)
    by (cases "config_lines ([], None) (pre @ h # post)") auto
  then have tail: "config_lines (d1, sec1) (h # post) = Inr (d, sec)"
    by (simp add: config_lines_append assms(2))
  have h1: "config_line (d1, sec1) h = Inr (AList.update s [] d1, Some s)"
    using assms(4,5) by (simp add: config_line_def Let_def)
  have h2: "config_line ([], None) h = Inr ([(s, [])], Some s)"
    using assms(4,5) by (simp add: config_line_def Let_def)
  have "agree_on s (AList.update s [] d1, Some s) ([(s, [])], Some s)"
    by (simp add: agree_on_def update_conv')
  moreover have "config_lines (AList.update s [] d1, Some s) post = Inr (d, sec)"
    using tail h1 by simp
  ultimately obtain b' where
    b': "config_lines ([(s, [])], Some s) post = Inr b'" "agree_on s (d, sec) b'"
    using config_lines_agree by blast
  have "config_lines ([], None) (h # post) = Inr (fst b', snd b')"
    using h2 b'(1) by simp
  moreover have "map_of d s = map_of (fst b') s"
    using b'(2) by (simp add: agree_on_def)
  moreover have "\<exists>extra. map fst d = map fst d1 @ extra"
    using config_lines_keys [OF tail] by simp
  ultimately show ?thesis
    by blast
qed

theorem read_config_redeclared_section_witness:
  "read_config (''[s]'' @ nl @ ''a 1'' @ nl @ ''[t]'' @ nl @ ''b 2'' @ nl @ ''[s]'' @ nl @ ''c 3'' @ nl)
     = Inr [(''s'', [(''c'', ''3'')]), (''t'', [(''b'', ''2'')])]
   \<and> (\<exists>d' sec'. config_lines ([], None) [''[s]'' @ nl, ''c 3'' @ nl] = Inr (d', sec')
         \<and> map_of [(''s'', [(''c'', ''3'')]), (''t'', [(''b'', ''2'')])] ''s'' = map_of d' ''s'')
   \<and> (\<exists>extra. map fst [(''s'', [(''c'', ''3'')]), (''t'', [(''b'', ''2'')])]
                  = map fst [(''s'', [(''a'', ''1'')]), (''t'', [(''b'', ''2'')])] @ extra)"
proof -
  define c where
    "c = ''[s]'' @ nl @ ''a 1'' @ nl @ ''[t]'' @ nl @ ''b 2'' @ nl @ ''[s]'' @ nl @ ''c 3'' @ nl"
  have r: "readlines c
      = [''[s]'' @ nl, ''a 1'' @ nl, ''[t]'' @ nl, ''b 2'' @ nl] @ (''[s]'' @ nl) # [''c 3'' @ nl]"
    unfolding c_def by code_simp
  have p: "config_lines ([], None) [''[s]'' @ nl, ''a 1'' @ nl, ''[t]'' @ nl, ''b 2'' @ nl]
      = Inr ([(''s'', [(''a'', ''1'')]), (''t'', [(''b'', ''2'')])], Some ''t'')"
    by code_simp
  have m: "map_of [(''s'', [(''a'', ''1'')]), (''t'', [(''b'', ''2'')])] ''s'' \<noteq> None"
    by simp
  have hd: "startswith (strip (''[s]'' @ nl)) ''['' \<and> endswith (strip (''[s]'' @ nl)) '']''"
    by code_simp
  have nm: "rstrip_chars '']'' (lstrip_chars ''['' (strip (''[s]'' @ nl))) = ''s''"
    by code_simp
  have rc: "read_config c = Inr [(''s'', [(''c'', ''3'')]), (''t'', [(''b'', ''2'')])]"
    unfolding c_def by code_simp
  from read_config_redeclared_section [OF r p m hd nm rc] rc show ?thesis
    unfolding c_def by simp
qed

section \<open>Grid header\<close>

lemma upt_small:
  "[0..<Suc 0] = [0]" "[0..<Suc (Suc 0)] = [0, Suc 0]"
  "[0..<Suc (Suc (Suc 0))] = [0, Suc 0, Suc (Suc 0)]"
  by (simp_all add: upt_rec)

lemma getitem_first_last:
  "a \<noteq> [] \<Longrightarrow> getitem a 0 = Inr (hd a) \<and> getitem_last a = Inr (last a)"
  by (cases a) (simp_all add: getitem_def getitem_last_def)

lemma header_dims_take:
  assumes "grid = [(''x1'', a1), (''x2'', a2), (''x3'', a3)]"
    and "a1 \<noteq> []" and "a2 \<noteq> []" and "a3 \<noteq> []" and "n \<le> 3"
  shows "header_dims B [0..<n] grid
     = Inr (concat (map (\<lambda>(d, arr). header_dim_line B d (hd arr) (last arr) (length arr))
                     (take n grid)))"
proof -
  have k: "keys ! 0 = ''x1''" "keys ! Suc 0 = ''x2''" "keys ! Suc (Suc 0) = ''x3''"
    "length keys = 3"
    by (simp_all add: keys_def)
  from assms(5) consider "n = 0" | "n = Suc 0" | "n = Suc (Suc 0)" | "n = Suc (Suc (Suc 0))"
    by linarith
  then show ?thesis
  proof cases
    case 1
    then show ?thesis by simp
  next
    case 2
    then show ?thesis
      using getitem_first_last [OF assms(2)]
      by (simp add: assms(1) upt_small k)
  next
    case 3
    then show ?thesis
      using getitem_first_last [OF assms(2)] getitem_first_last [OF assms(3)]
      by (simp add: assms(1) upt_small k)
  next
    case 4
    then show ?thesis
      using getitem_first_last [OF assms(2)] getitem_first_last [OF assms(3)]
        getitem_first_last [OF assms(4)]
      by (simp add: assms(1) upt_small k)
  qed
qed

lemma leading_take:
  assumes "grid = [(''x1'', a1), (''x2'', a2), (''x3'', a3)]"
    and "1 < length a3 \<longrightarrow> 1 < length a2"
    and "1 < length a2 \<longrightarrow> 1 < length a1"
  shows "take (ndim_of grid) grid = filter (\<lambda>(d, arr). 1 < length arr) grid"
  using assms(2,3) by (auto simp: assms(1) ndim_of_def)

text \<open>
  C4 as stated fails when an axis with one point comes before an axis with more than one
  point: the header has DIMENSIONS equal to 1 and its one descriptor line is for the
  axis \<open>x1\<close>, which has one point, not for \<open>x2\<close>, which has three.
\<close>

theorem write_grid_header_inactive_first:
  "write_grid_header exact_builtins
     [(''x1'', [1 / 2]), (''x2'', [1 / 2, 3 / 2, 5 / 2]), (''x3'', [0])] ''cartesian''
     = Inr (''# ******************************************************'' @ nl
          @ ''# PLUTO 4.2 Grid File'' @ nl
          @ ''# Generated on  Mon Jul 10 10:10:10 2017'' @ nl
          @ ''#'' @ nl
          @ ''# DIMENSIONS: 1'' @ nl
          @ ''# GEOMETRY:   CARTESIAN'' @ nl
          @ ''# X1 [0.50000,  0.50000], 1 point(s), 3 ghosts'' @ nl
          @ ''# ******************************************************'' @ nl)
   \<and> active_dim_lines exact_builtins
       [(''x1'', [1 / 2]), (''x2'', [1 / 2, 3 / 2, 5 / 2]), (''x3'', [0])]
     = ''# X2 [0.50000,  2.50000], 3 point(s), 3 ghosts'' @ nl"
proof -
  have "write_grid_header exact_builtins
          [(''x1'', [1 / 2]), (''x2'', [1 / 2, 3 / 2, 5 / 2]), (''x3'', [0])] ''cartesian''
     = Inr (''# ******************************************************'' @ nl
          @ ''# PLUTO 4.2 Grid File'' @ nl
          @ ''# Generated on  Mon Jul 10 10:10:10 2017'' @ nl
          @ ''#'' @ nl
          @ ''# DIMENSIONS: 1'' @ nl
          @ ''# GEOMETRY:   CARTESIAN'' @ nl
          @ ''# X1 [0.50000,  0.50000], 1 point(s), 3 ghosts'' @ nl
          @ ''# ******************************************************'' @ nl)"
    by code_simp
  moreover have
    "active_dim_lines exact_builtins
       [(''x1'', [1 / 2]), (''x2'', [1 / 2, 3 / 2, 5 / 2]), (''x3'', [0])]
     = ''# X2 [0.50000,  2.50000], 3 point(s), 3 ghosts'' @ nl"
    by code_simp
  ultimately show ?thesis by simp
qed

text \<open>
  C4, amended.  Whatever the interpreter's formats are, every header that
  \<open>write_grid_header\<close> writes states DIMENSIONS equal to the number of axes with more
  than one point, and a header is written for every grid with non-empty axes
  \<open>x1\<close>, \<open>x2\<close>, \<open>x3\<close>.  When moreover no axis with more than one point comes
  after an axis with one point, the descriptor lines of the header are exactly one
  line for each axis with more than one point, in axis order, with the axis identifier,
  its first and last centre values and its point count.
\<close>

theorem write_grid_header_dimensions:
  "(write_grid_header B grid geometry = Inr text \<longrightarrow>
      (\<exists>dims. text = header_text B (length (filter (\<lambda>arr. 1 < length arr) (map snd grid)))
                       geometry dims)) \<and>
   (grid = [(''x1'', a1), (''x2'', a2), (''x3'', a3)] \<and> a1 \<noteq> [] \<and> a2 \<noteq> [] \<and> a3 \<noteq> [] \<longrightarrow>
      (\<exists>dims. write_grid_header B grid geometry
                = Inr (header_text B (length (filter (\<lambda>arr. 1 < length arr) [a1, a2, a3]))
                        geometry dims) \<and>
              ((1 < length a3 \<longrightarrow> 1 < length a2) \<and> (1 < length a2 \<longrightarrow> 1 < length a1)
                 \<longrightarrow> dims = active_dim_lines B grid)))"
proof (intro conjI impI)
  assume "write_grid_header B grid geometry = Inr text"
  then show "\<exists>dims. text = header_text B (length (filter (\<lambda>arr. 1 < length arr) (map snd grid)))
                       geometry dims"
    by (cases "header_dims B [0 ..< ndim_of grid] grid")
      (auto simp: write_grid_header_def header_text_def ndim_of_def)
next
  assume g: "grid = [(''x1'', a1), (''x2'', a2), (''x3'', a3)] \<and> a1 \<noteq> [] \<and> a2 \<noteq> [] \<and> a3 \<noteq> []"
  let ?line = "\<lambda>(d, arr). header_dim_line B d (hd arr) (last arr) (length arr)"
  let ?dims = "concat (map ?line (take (ndim_of grid) grid))"
  have n: "ndim_of grid = length (filter (\<lambda>arr. 1 < length arr) [a1, a2, a3])"
    using g by (simp add: ndim_of_def)
  then have "ndim_of grid \<le> 3"
    by simp
  with g have "header_dims B [0 ..< ndim_of grid] grid = Inr ?dims"
    using header_dims_take [of grid a1 a2 a3 "ndim_of grid" B] by blast
  then have w: "write_grid_header B grid geometry
      = Inr (header_text B (length (filter (\<lambda>arr. 1 < length arr) [a1, a2, a3])) geometry ?dims)"
    by (simp add: write_grid_header_def header_text_def n)
  have "(1 < length a3 \<longrightarrow> 1 < length a2) \<and> (1 < length a2 \<longrightarrow> 1 < length a1)
          \<longrightarrow> ?dims = active_dim_lines B grid"
    using g leading_take [of grid a1 a2 a3] by (simp add: active_dim_lines_def)
  with w show "\<exists>dims. write_grid_header B grid geometry
                = Inr (header_text B (length (filter (\<lambda>arr. 1 < length arr) [a1, a2, a3]))
                        geometry dims) \<and>
              ((1 < length a3 \<longrightarrow> 1 < length a2) \<and> (1 < length a2 \<longrightarrow> 1 < length a1)
                 \<longrightarrow> dims = active_dim_lines B grid)"
    by blast
qed

theorem write_grid_header_dimensions_witness:
  "write_grid_header exact_builtins
     [(''x1'', [1 / 2, 3 / 2, 5 / 2]), (''x2'', [0]), (''x3'', [0])] ''cartesian''
     = Inr (''# ******************************************************'' @ nl
          @ ''# PLUTO 4.2 Grid File'' @ nl
          @ ''# Generated on  Mon Jul 10 10:10:10 2017'' @ nl
          @ ''#'' @ nl
          @ ''# DIMENSIONS: 1'' @ nl
          @ ''# GEOMETRY:   CARTESIAN'' @ nl
          @ ''# X1 [0.50000,  2.50000], 3 point(s), 3 ghosts'' @ nl
          @ ''# ******************************************************'' @ nl)
   \<and> (\<exists>dims. ''# ******************************************************'' @ nl
          @ ''# PLUTO 4.2 Grid File'' @ nl
          @ ''# Generated on  Mon Jul 10 10:10:10 2017'' @ nl
          @ ''#'' @ nl
          @ ''# DIMENSIONS: 1'' @ nl
          @ ''# GEOMETRY:   CARTESIAN'' @ nl
          @ ''# X1 [0.50000,  2.50000], 3 point(s), 3 ghosts'' @ nl
          @ ''# ******************************************************'' @ nl
        = header_text exact_builtins 1 ''cartesian'' dims)"
proof -
  let ?g = "[(''x1'', [1 / 2, 3 / 2, 5 / 2]), (''x2'', [0]), (''x3'', [0 :: real])]"
  let ?t = "''# ******************************************************'' @ nl
          @ ''# PLUTO 4.2 Grid File'' @ nl
          @ ''# Generated on  Mon Jul 10 10:10:10 2017'' @ nl
          @ ''#'' @ nl
          @ ''# DIMENSIONS: 1'' @ nl
          @ ''# GEOMETRY:   CARTESIAN'' @ nl
          @ ''# X1 [0.50000,  2.50000], 3 point(s), 3 ghosts'' @ nl
          @ ''# ******************************************************'' @ nl"
  have e3: "active_dim_lines exact_builtins ?g
      = ''# X1 [0.50000,  2.50000], 3 point(s), 3 ghosts'' @ nl"
    by code_simp
  have e4: "header_text exact_builtins 1 ''cartesian''
        (''# X1 [0.50000,  2.50000], 3 point(s), 3 ghosts'' @ nl) = ?t"
    by code_simp
  from write_grid_header_dimensions
    [of exact_builtins ?g "''cartesian''" ?t "[1 / 2, 3 / 2, 5 / 2]" "[0]" "[0]"]
  have a: "write_grid_header exact_builtins ?g ''cartesian'' = Inr ?t
             \<longrightarrow> (\<exists>dims. ?t = header_text exact_builtins 1 ''cartesian'' dims)"
    and b: "\<exists>dims. write_grid_header exact_builtins ?g ''cartesian''
               = Inr (header_text exact_builtins 1 ''cartesian'' dims)
             \<and> dims = active_dim_lines exact_builtins ?g"
    by simp_all
  from b have "write_grid_header exact_builtins ?g ''cartesian''
      = Inr (header_text exact_builtins 1 ''cartesian'' (active_dim_lines exact_builtins ?g))"
    by blast
  then have w: "write_grid_header exact_builtins ?g ''cartesian'' = Inr ?t"
    by (simp only: e3 e4)
  with a show ?thesis
    by blast
qed

section \<open>Lines and words of a written text\<close>




















section \<open>Re-reading a written grid\<close>










lemma length_axis_rows [simp]: "length (axis_rows B pluto4 arr) = length arr"
  by (simp add: axis_rows_def)

lemma length_axis_values [simp]: "length (axis_values B pluto4 arr) = length arr"
  by (simp add: axis_values_def)












section \<open>The exact decimal interpretation reads back what it writes\<close>

















section \<open>Config round trip\<close>

text \<open>
  C5 fails on the code for a key of 25 characters or more: \<open>'{:<25}{}'\<close> pads the
  key to 25 columns and writes the value right after it, so such a key is written with
  no separator.  Reading the written file back then fails, or, when the value has a
  space, gives another key and another value.
\<close>

theorem write_config_long_key:
  "read_config (''[s]'' @ nl @ ''abcdefghijklmnopqrstuvwxy 1'' @ nl)
     = Inr [(''s'', [(''abcdefghijklmnopqrstuvwxy'', ''1'')])]
   \<and> write_config [(''s'', [(''abcdefghijklmnopqrstuvwxy'', ''1'')])]
     = ''[s]'' @ nl @ nl @ ''abcdefghijklmnopqrstuvwxy1'' @ nl @ nl
   \<and> read_config (write_config [(''s'', [(''abcdefghijklmnopqrstuvwxy'', ''1'')])])
     = Inl ValueError
   \<and> read_config (''[s]'' @ nl @ ''abcdefghijklmnopqrstuvwxy v w'' @ nl)
     = Inr [(''s'', [(''abcdefghijklmnopqrstuvwxy'', ''v w'')])]
   \<and> read_config (write_config [(''s'', [(''abcdefghijklmnopqrstuvwxy'', ''v w'')])])
     = Inr [(''s'', [(''abcdefghijklmnopqrstuvwxyv'', ''w'')])]"
proof -
  have "read_config (''[s]'' @ nl @ ''abcdefghijklmnopqrstuvwxy 1'' @ nl)
     = Inr [(''s'', [(''abcdefghijklmnopqrstuvwxy'', ''1'')])]"
    by code_simp
  moreover have "write_config [(''s'', [(''abcdefghijklmnopqrstuvwxy'', ''1'')])]
     = ''[s]'' @ nl @ nl @ ''abcdefghijklmnopqrstuvwxy1'' @ nl @ nl"
    by code_simp
  moreover have
    "read_config (write_config [(''s'', [(''abcdefghijklmnopqrstuvwxy'', ''1'')])])
     = Inl ValueError"
    by code_simp
  moreover have "read_config (''[s]'' @ nl @ ''abcdefghijklmnopqrstuvwxy v w'' @ nl)
     = Inr [(''s'', [(''abcdefghijklmnopqrstuvwxy'', ''v w'')])]"
    by code_simp
  moreover have
    "read_config (write_config [(''s'', [(''abcdefghijklmnopqrstuvwxy'', ''v w'')])])
     = Inr [(''s'', [(''abcdefghijklmnopqrstuvwxyv'', ''w'')])]"
    by code_simp
  ultimately show ?thesis
    by simp
qed

end
